theory Spec2Isabelle
  imports Main
begin

section \<open>Halo mass function of Sheth and Tormen (1999)\<close>

text \<open>
  Source: \<^verbatim>\<open>pyccl/halos/hmfunc/sheth99.py\<close>.

  A mass definition is an object with an attribute \<^verbatim>\<open>Delta\<close>, which is either a number
  (an overdensity such as 200) or one of the strings \<^verbatim>\<open>"fof"\<close> and \<^verbatim>\<open>"vir"\<close>. Python
  compares a number with a string as unequal, which is what the two constructors of
  \<open>delta\<close> give. The numeric type is left open: the check never inspects a number.
\<close>

datatype 'n delta = Delta_num 'n | Delta_str string

record 'n MassDef =
  Delta :: "'n delta"
  rho_type :: string

text \<open>
  \<^verbatim>\<open>
  def _check_mass_def_strict(self, mass_def):
      return mass_def.Delta != "fof"
  \<close>
  The method does not read \<^verbatim>\<open>self\<close>.
\<close>

definition check_mass_def_strict :: "'n MassDef \<Rightarrow> bool" where
  "check_mass_def_strict mass_def \<longleftrightarrow> Delta mass_def \<noteq> Delta_str ''fof''"

datatype mass_def_error = Mass_def_not_allowed

text \<open>
  Modelled from the spec: the constructor of the base class \<^verbatim>\<open>MassFunc\<close>, which is not
  among the source files. What it does with the hook is taken from the documentation of
  \<^verbatim>\<open>mass_def_strict\<close> in \<^verbatim>\<open>sheth99.py\<close>: "If True, only allow the mass definitions for
  which this halo bias relation was fitted, and raise if another mass definition is
  passed. If False, do not check for model consistency for the mass definition." The
  hook is the subclass's \<^verbatim>\<open>_check_mass_def_strict\<close>, here an argument. On success the
  instance holds \<^verbatim>\<open>mass_def\<close> and \<^verbatim>\<open>mass_def_strict\<close> (both are among the class's
  \<^verbatim>\<open>__repr_attrs__\<close>). The mass definition is an object already: the source also takes
  its name as a string, resolved by code that is not in the sources.
\<close>

definition MassFunc_init ::
  "('n MassDef \<Rightarrow> bool) \<Rightarrow> 'n MassDef \<Rightarrow> bool \<Rightarrow> mass_def_error + 'n MassDef \<times> bool" where
  "MassFunc_init hook md strict =
     (if strict \<and> hook md then Inl Mass_def_not_allowed else Inr (md, strict))"

record 'n MassFuncSheth99 =
  use_delta_c_fit :: bool
  mass_def :: "'n MassDef"
  mass_def_strict :: bool

text \<open>
  \<^verbatim>\<open>
  def __init__(self, *, mass_def="fof", mass_def_strict=True,
               use_delta_c_fit=False):
      self.use_delta_c_fit = use_delta_c_fit
      super().__init__(mass_def=mass_def, mass_def_strict=mass_def_strict)
  \<close>
  An exception of the base constructor leaves no instance.
\<close>

definition MassFuncSheth99_init ::
  "'n MassDef \<Rightarrow> bool \<Rightarrow> bool \<Rightarrow> mass_def_error + 'n MassFuncSheth99" where
  "MassFuncSheth99_init md strict fit =
     (case MassFunc_init check_mass_def_strict md strict of
        Inl e \<Rightarrow> Inl e
      | Inr (md', strict') \<Rightarrow>
          Inr \<lparr>use_delta_c_fit = fit, mass_def = md', mass_def_strict = strict'\<rparr>)"


section \<open>CIB halo profile of Shang et al. (2012)\<close>

text \<open>
  Source: \<^verbatim>\<open>pyccl/halos/profiles/cib_shang12.py\<close>.

  The instance attributes that \<^verbatim>\<open>__init__\<close> sets, in its order. The parameters are
  Python values of one open type \<open>'v\<close> (floats in practice); the concentration and the
  inner NFW profile are objects of their own types. Whatever else the base class stores
  on the instance is the record's extension part.
\<close>

record ('v, 'c, 'p) HaloProfileCIBShang12 =
  nu :: 'v
  alpha :: 'v
  T0 :: 'v
  beta :: 'v
  gamma :: 'v
  s_z :: 'v
  l10meff :: 'v
  sigLM :: 'v
  Mmin :: 'v
  L0 :: 'v
  concentration :: 'c
  pNFW :: 'p

text \<open>
  \<^verbatim>\<open>
  def update_parameters(self, nu_GHz=None, alpha=None, T0=None, beta=None,
                        gamma=None, s_z=None, log10meff=None, sigLM=None,
                        Mmin=None, L0=None):
      if nu_GHz is not None:
          self.nu = nu_GHz
      if alpha is not None:
          self.alpha = alpha
      ...
      if L0 is not None:
          self.L0 = L0
  \<close>
  An argument is \<open>None\<close> or \<open>Some\<close> value; the ten tests run in the source's order,
  each on the instance the previous one left. The arguments carry the suffix \<open>_arg\<close>
  where the source's name is also an attribute's.
\<close>

definition update_parameters ::
  "('v, 'c, 'p, 'z) HaloProfileCIBShang12_scheme \<Rightarrow>
     'v option \<Rightarrow> 'v option \<Rightarrow> 'v option \<Rightarrow> 'v option \<Rightarrow> 'v option \<Rightarrow>
     'v option \<Rightarrow> 'v option \<Rightarrow> 'v option \<Rightarrow> 'v option \<Rightarrow> 'v option \<Rightarrow>
     ('v, 'c, 'p, 'z) HaloProfileCIBShang12_scheme" where
  "update_parameters self nu_GHz alpha_arg T0_arg beta_arg gamma_arg s_z_arg
       log10meff sigLM_arg Mmin_arg L0_arg =
     (let self = (case nu_GHz of None \<Rightarrow> self | Some x \<Rightarrow> self\<lparr>nu := x\<rparr>);
          self = (case alpha_arg of None \<Rightarrow> self | Some x \<Rightarrow> self\<lparr>alpha := x\<rparr>);
          self = (case T0_arg of None \<Rightarrow> self | Some x \<Rightarrow> self\<lparr>T0 := x\<rparr>);
          self = (case beta_arg of None \<Rightarrow> self | Some x \<Rightarrow> self\<lparr>beta := x\<rparr>);
          self = (case gamma_arg of None \<Rightarrow> self | Some x \<Rightarrow> self\<lparr>gamma := x\<rparr>);
          self = (case s_z_arg of None \<Rightarrow> self | Some x \<Rightarrow> self\<lparr>s_z := x\<rparr>);
          self = (case log10meff of None \<Rightarrow> self | Some x \<Rightarrow> self\<lparr>l10meff := x\<rparr>);
          self = (case sigLM_arg of None \<Rightarrow> self | Some x \<Rightarrow> self\<lparr>sigLM := x\<rparr>);
          self = (case Mmin_arg of None \<Rightarrow> self | Some x \<Rightarrow> self\<lparr>Mmin := x\<rparr>);
          self = (case L0_arg of None \<Rightarrow> self | Some x \<Rightarrow> self\<lparr>L0 := x\<rparr>)
      in self)"

text \<open>What an optional argument leaves in a field that held \<open>old\<close>.\<close>

definition updated :: "'v option \<Rightarrow> 'v \<Rightarrow> 'v" where
  "updated arg old = (case arg of None \<Rightarrow> old | Some x \<Rightarrow> x)"


section \<open>Emulator bounds\<close>

text \<open>
  Source: \<^verbatim>\<open>pyccl/tests/test_emulator.py\<close> exercises \<^verbatim>\<open>EmulatorObject\<close>; the class
  itself is not among the source files, so this section follows sections 4.1, 4.2 and 7
  of the specification. The inputs of the tests are the concrete values of the
  witnesses below.
\<close>

text \<open>
  Modelled from the spec: the error taxonomy of section 7 (the module that raises the
  errors is missing).
\<close>

datatype error = InvalidConfiguration | OutOfBounds | UnknownBackend | NotImplementedForBackend

text \<open>
  Modelled from the spec: the Box variant, "mapping from parameter name (string) to an
  ordered pair (low, high)", kept in the mapping's order as an association list, and a
  proposal, "a mapping from parameter name to a numeric value". Numbers are of any
  linearly ordered type.
\<close>

type_synonym 'v box = "(string \<times> 'v \<times> 'v) list"

type_synonym 'v proposal = "string \<rightharpoonup> 'v"

text \<open>
  Modelled from the spec: the four kinds of \<^verbatim>\<open>bounds_input\<close> that section 4.1 tells
  apart: \<^verbatim>\<open>None\<close>, a callable ("receives a proposal mapping and raises/signals on
  violation"), a mapping, and any other value.
\<close>

datatype ('v, 'o) bounds_input =
  No_bounds
  | Callable "'v proposal \<Rightarrow> error + unit"
  | Box "'v box"
  | Other 'o

text \<open>
  Modelled from the spec: the two results of \<^verbatim>\<open>normalize\<close>, the stored representation
  and the check function. Each has the sentinel, "no check performed".
\<close>

datatype 'v bounds_repr = UNCONSTRAINED | Box_bounds "'v box"

datatype 'v check_fn =
  UNCONSTRAINED_check
  | Callable_check "'v proposal \<Rightarrow> error + unit"
  | Box_check "'v box"

text \<open>
  Modelled from the spec: "validate every pair has low \<open>\<le>\<close> high".
\<close>

fun valid_box :: "('v::linorder) box \<Rightarrow> bool" where
  "valid_box [] = True"
| "valid_box ((k, low, high) # bs) = (low \<le> high \<and> valid_box bs)"

text \<open>
  Modelled from the spec: \<^verbatim>\<open>normalize(bounds_input) -> (bounds_repr, check_fn)\<close>, the
  four cases of section 4.1 in its order. A mapping with an inverted pair and an input
  of any other type "fail with an InvalidConfiguration error at construction time".
\<close>

fun normalize ::
  "('v::linorder, 'o) bounds_input \<Rightarrow> error + ('v bounds_repr \<times> 'v check_fn)" where
  "normalize No_bounds = Inr (UNCONSTRAINED, UNCONSTRAINED_check)"
| "normalize (Callable f) = Inr (UNCONSTRAINED, Callable_check f)"
| "normalize (Box bs) =
     (if valid_box bs then Inr (Box_bounds bs, Box_check bs) else Inl InvalidConfiguration)"
| "normalize (Other x) = Inl InvalidConfiguration"

text \<open>
  Modelled from the spec: the state of an \<^verbatim>\<open>EmulatorObject\<close> (section 4.2): "model,
  bounds (the bounds_repr from 4.1), check_bounds (the check_fn from 4.1)"; the model
  "may be None initially". Construction normalises the bounds and fails where
  \<open>normalize\<close> does.
\<close>

record ('m, 'v) EmulatorObject =
  model :: "'m option"
  bounds :: "'v bounds_repr"
  check_bounds :: "'v check_fn"

definition EmulatorObject_init ::
  "'m option \<Rightarrow> ('v::linorder, 'o) bounds_input \<Rightarrow> error + ('m, 'v) EmulatorObject" where
  "EmulatorObject_init m bounds_input =
     (case normalize bounds_input of
        Inl e \<Rightarrow> Inl e
      | Inr (bounds_repr, check_fn) \<Rightarrow>
          Inr \<lparr>model = m, bounds = bounds_repr, check_bounds = check_fn\<rparr>)"

text \<open>
  Modelled from the spec: the check function of a Box, which "for every key present in
  both bounds and proposal, fails with an OutOfBounds error if the proposal value lies
  outside [low, high]; keys absent from the proposal are silently skipped". The keys are
  visited in the order of the bounds and the first violation ends the check.
\<close>

fun check_box :: "('v::linorder) box \<Rightarrow> 'v proposal \<Rightarrow> error + unit" where
  "check_box [] proposal = Inr ()"
| "check_box ((k, low, high) # bs) proposal =
     (case proposal k of
        None \<Rightarrow> check_box bs proposal
      | Some v \<Rightarrow> if v < low \<or> high < v then Inl OutOfBounds else check_box bs proposal)"

text \<open>
  Modelled from the spec: \<^verbatim>\<open>check_bounds(proposal)\<close> "delegates to the stored check
  function; no-op when unconstrained".
\<close>

fun invoke_check :: "('v::linorder) check_fn \<Rightarrow> 'v proposal \<Rightarrow> error + unit" where
  "invoke_check UNCONSTRAINED_check proposal = Inr ()"
| "invoke_check (Callable_check f) proposal = f proposal"
| "invoke_check (Box_check bs) proposal = check_box bs proposal"

definition emu_check_bounds ::
  "('m, 'v::linorder) EmulatorObject \<Rightarrow> 'v proposal \<Rightarrow> error + unit" where
  "emu_check_bounds emu proposal = invoke_check (check_bounds emu) proposal"


section \<open>Theorems\<close>

subsection \<open>The strict mass-definition check\<close>

lemma check_mass_def_strict_num: "check_mass_def_strict \<lparr>Delta = Delta_num n, rho_type = r\<rparr>"
  by (simp add: check_mass_def_strict_def)

lemma check_mass_def_strict_vir:
  "check_mass_def_strict \<lparr>Delta = Delta_str ''vir'', rho_type = r\<rparr>"
  by (simp add: check_mass_def_strict_def)

lemma check_mass_def_strict_fof:
  "\<not> check_mass_def_strict \<lparr>Delta = Delta_str ''fof'', rho_type = r\<rparr>"
  by (simp add: check_mass_def_strict_def)

text \<open>
  Claim C10. For every mass definition, the strict check of \<^verbatim>\<open>MassFuncSheth99\<close> returns
  True (the definition is not allowed) exactly when its \<^verbatim>\<open>Delta\<close> differs from
  \<^verbatim>\<open>"fof"\<close>; so with \<^verbatim>\<open>mass_def_strict=True\<close> the constructor yields an instance exactly
  for the friends-of-friends definitions, and with \<^verbatim>\<open>mass_def_strict=False\<close> it accepts
  every definition.
\<close>

theorem check_mass_def_strict_iff_not_fof:
  "check_mass_def_strict md = (Delta md \<noteq> Delta_str ''fof'')
   \<and> (\<exists>mf. MassFuncSheth99_init md True fit = Inr mf) = (Delta md = Delta_str ''fof'')
   \<and> (\<exists>mf. MassFuncSheth99_init md False fit = Inr mf)"
  by (simp add: check_mass_def_strict_def MassFuncSheth99_init_def MassFunc_init_def)


subsection \<open>The frame of \<open>update_parameters\<close>\<close>

lemma update_parameters_None:
  "update_parameters self None None None None None None None None None None = self"
  by (simp add: update_parameters_def)

lemma update_parameters_example:
  "update_parameters
     \<lparr>nu = 217, alpha = 1, T0 = 24, beta = 2, gamma = 3, s_z = 4, l10meff = 12,
      sigLM = 5, Mmin = 10, L0 = 6, concentration = c, pNFW = q\<rparr>
     None (Some 7) None None None None (Some 13) None None None
   = \<lparr>nu = 217::int, alpha = 7, T0 = 24, beta = 2, gamma = 3, s_z = 4, l10meff = 13,
      sigLM = 5, Mmin = 10, L0 = 6, concentration = c, pNFW = q\<rparr>"
  by (simp add: update_parameters_def)

text \<open>
  Claim C9. \<^verbatim>\<open>update_parameters\<close> leaves in each of the ten parameter fields the
  argument's value when one is passed and the old value when the argument is None; it
  leaves the concentration, the inner NFW profile and everything else stored on the
  instance as they were; and with every argument None the instance is unchanged.
\<close>

theorem update_parameters_frame:
  "(let self' = update_parameters self nu_GHz alpha_arg T0_arg beta_arg gamma_arg
                  s_z_arg log10meff sigLM_arg Mmin_arg L0_arg
    in nu self' = updated nu_GHz (nu self)
     \<and> alpha self' = updated alpha_arg (alpha self)
     \<and> T0 self' = updated T0_arg (T0 self)
     \<and> beta self' = updated beta_arg (beta self)
     \<and> gamma self' = updated gamma_arg (gamma self)
     \<and> s_z self' = updated s_z_arg (s_z self)
     \<and> l10meff self' = updated log10meff (l10meff self)
     \<and> sigLM self' = updated sigLM_arg (sigLM self)
     \<and> Mmin self' = updated Mmin_arg (Mmin self)
     \<and> L0 self' = updated L0_arg (L0 self)
     \<and> concentration self' = concentration self
     \<and> pNFW self' = pNFW self
     \<and> HaloProfileCIBShang12.more self' = HaloProfileCIBShang12.more self)
   \<and> update_parameters self None None None None None None None None None None = self"
  by (simp add: update_parameters_def updated_def split: option.split)

subsection \<open>Bounds of an emulator\<close>

lemma valid_box_iff: "valid_box bs \<longleftrightarrow> (\<forall>(k, low, high) \<in> set bs. low \<le> high)"
  by (induction bs rule: valid_box.induct) auto

lemma check_box_result:
  "check_box bs p =
     (if \<exists>(k, low, high) \<in> set bs. \<exists>v. p k = Some v \<and> (v < low \<or> high < v)
      then Inl OutOfBounds else Inr ())"
  by (induction bs p rule: check_box.induct) (auto split: option.splits)

text \<open>
  Claim C4. Constructing an \<^verbatim>\<open>EmulatorObject\<close> with a Box in which some key has
  low > high, or with bounds that are neither None, nor callable, nor a mapping, fails
  with \<open>InvalidConfiguration\<close>: construction returns the error and no object, so nothing
  is left for a later check to report.
\<close>

theorem EmulatorObject_init_invalid:
  "((\<exists>(k, low, high) \<in> set bs. high < low) \<longrightarrow>
      EmulatorObject_init m (Box bs :: ('v::linorder, 'o) bounds_input)
        = Inl InvalidConfiguration)
   \<and> EmulatorObject_init m (Other x :: ('v, 'o) bounds_input) = Inl InvalidConfiguration"
  by (auto simp: EmulatorObject_init_def valid_box_iff)

text \<open>
  The two failing constructions of \<^verbatim>\<open>test_bounds_raises_warns\<close> and
  \<^verbatim>\<open>test_bounds_types\<close>: the bounds \<^verbatim>\<open>{"a": [0, 1], "b": [1, 0]}\<close> and the string
  \<^verbatim>\<open>"something_else"\<close>.
\<close>

theorem EmulatorObject_init_invalid_witness:
  "(\<exists>(k, low, high) \<in> set [(''a'', 0::int, 1), (''b'', 1, 0)]. high < low)
   \<and> EmulatorObject_init (None :: unit option)
        (Box [(''a'', 0::int, 1), (''b'', 1, 0)] :: (int, string) bounds_input)
      = Inl InvalidConfiguration
   \<and> EmulatorObject_init (None :: unit option)
        (Other ''something_else'' :: (int, string) bounds_input)
      = Inl InvalidConfiguration"
  using EmulatorObject_init_invalid
    [of "[(''a'', 0::int, 1), (''b'', 1, 0)]" "None :: unit option" "''something_else''"]
  by simp

text \<open>
  Claim C5. For an \<^verbatim>\<open>EmulatorObject\<close> constructed from valid Box bounds and every
  proposal, \<^verbatim>\<open>check_bounds\<close> fails with \<open>OutOfBounds\<close> when some key of the bounds is in
  the proposal with a value outside [low, high], and passes otherwise; so a key of the
  bounds that the proposal lacks never causes an error.
\<close>

theorem check_bounds_box:
  assumes "EmulatorObject_init m (Box bs :: ('v::linorder, 'o) bounds_input) = Inr emu"
  shows "emu_check_bounds emu p =
           (if \<exists>(k, low, high) \<in> set bs. \<exists>v. p k = Some v \<and> (v < low \<or> high < v)
            then Inl OutOfBounds else Inr ())"
proof -
  from assms have "check_bounds emu = Box_check bs"
    by (auto simp: EmulatorObject_init_def split: if_splits)
  then show ?thesis
    by (simp only: emu_check_bounds_def invoke_check.simps check_box_result)
qed

text \<open>
  The bounds \<^verbatim>\<open>{"a": [0, 1], "b": [0, 1]}\<close> and the proposal \<^verbatim>\<open>{"a": 0, "b": -1}\<close> of
  \<^verbatim>\<open>test_bounds_raises_warns\<close>, and a proposal without the key \<^verbatim>\<open>"b"\<close>.
\<close>

theorem check_bounds_box_witness:
  "EmulatorObject_init (None :: unit option)
       (Box [(''a'', 0::int, 1), (''b'', 0, 1)] :: (int, string) bounds_input)
     = Inr \<lparr>model = None, bounds = Box_bounds [(''a'', 0, 1), (''b'', 0, 1)],
            check_bounds = Box_check [(''a'', 0, 1), (''b'', 0, 1)]\<rparr>
   \<and> emu_check_bounds
        \<lparr>model = None :: unit option, bounds = Box_bounds [(''a'', 0::int, 1), (''b'', 0, 1)],
         check_bounds = Box_check [(''a'', 0, 1), (''b'', 0, 1)]\<rparr>
        [''a'' \<mapsto> 0, ''b'' \<mapsto> - 1] = Inl OutOfBounds
   \<and> emu_check_bounds
        \<lparr>model = None :: unit option, bounds = Box_bounds [(''a'', 0::int, 1), (''b'', 0, 1)],
         check_bounds = Box_check [(''a'', 0, 1), (''b'', 0, 1)]\<rparr>
        [''a'' \<mapsto> 1] = Inr ()"
proof -
  have h: "EmulatorObject_init (None :: unit option)
       (Box [(''a'', 0::int, 1), (''b'', 0, 1)] :: (int, string) bounds_input)
     = Inr \<lparr>model = None, bounds = Box_bounds [(''a'', 0, 1), (''b'', 0, 1)],
            check_bounds = Box_check [(''a'', 0, 1), (''b'', 0, 1)]\<rparr>"
    by (simp add: EmulatorObject_init_def)
  show ?thesis
    using h check_bounds_box [OF h, of "[''a'' \<mapsto> 0, ''b'' \<mapsto> - 1]"]
      check_bounds_box [OF h, of "[''a'' \<mapsto> 1]"]
    by simp
qed

end
